theory Spec2Isabelle
  imports Complex_Main
begin

section \<open>Easing functions (easing.py)\<close>

text \<open>
  The ten easing functions, as functions on the real numbers: \<open>math.pi\<close>,
  \<open>math.sin\<close> and \<open>math.cos\<close> are \<open>pi\<close>, \<open>sin\<close> and \<open>cos\<close>.
\<close>

definition linear_ease :: "real \<Rightarrow> real" where
  "linear_ease t = t"

definition quadratic_in :: "real \<Rightarrow> real" where
  "quadratic_in t = t ^ 2"

definition quadratic_out :: "real \<Rightarrow> real" where
  "quadratic_out t = 1 - (1 - t) ^ 2"

definition quadratic_in_out :: "real \<Rightarrow> real" where
  "quadratic_in_out t = (if t < 0.5 then 2 * t ^ 2 else 1 - (- 2 * t + 2) ^ 2 / 2)"

definition cubic_in :: "real \<Rightarrow> real" where
  "cubic_in t = t ^ 3"

definition cubic_out :: "real \<Rightarrow> real" where
  "cubic_out t = 1 - (1 - t) ^ 3"

definition cubic_in_out :: "real \<Rightarrow> real" where
  "cubic_in_out t = (if t < 0.5 then 4 * t ^ 3 else 1 - (- 2 * t + 2) ^ 3 / 2)"

definition sine_in :: "real \<Rightarrow> real" where
  "sine_in t = 1 - cos ((t * pi) / 2)"

definition sine_out :: "real \<Rightarrow> real" where
  "sine_out t = sin ((t * pi) / 2)"

definition sine_in_out :: "real \<Rightarrow> real" where
  "sine_in_out t = - (cos (pi * t) - 1) / 2"

subsection \<open>Names bound in the module\<close>

datatype error =
    ValueError string
  | KeyError string
  | TypeError
  | ZeroDivisionError
  | OverflowError

text \<open>
  How a computation ends: it returns a value, raises, or is still running when the
  model's bound on loops is used up.
\<close>

datatype 'a status = Done 'a | Raised error | OutOfFuel

text \<open>
  \<open>globals()\<close> of the module: the ten easing functions, and the other names bound in
  the module (its two imports, its two other functions and the entries every module
  object carries). Calling one of the latter with a single float raises \<open>TypeError\<close>.
\<close>

datatype global_entry = EasingFn "real \<Rightarrow> real" | NotEasing

definition easing_globals :: "string \<Rightarrow> global_entry option" where
  "easing_globals = map_of
     [(''linear'', EasingFn linear_ease),
      (''quadratic_in'', EasingFn quadratic_in),
      (''quadratic_out'', EasingFn quadratic_out),
      (''quadratic_in_out'', EasingFn quadratic_in_out),
      (''cubic_in'', EasingFn cubic_in),
      (''cubic_out'', EasingFn cubic_out),
      (''cubic_in_out'', EasingFn cubic_in_out),
      (''sine_in'', EasingFn sine_in),
      (''sine_out'', EasingFn sine_out),
      (''sine_in_out'', EasingFn sine_in_out),
      (''asyncio'', NotEasing),
      (''math'', NotEasing),
      (''interpolate_color'', NotEasing),
      (''interpolate_color_over_time'', NotEasing),
      (''__name__'', NotEasing),
      (''__doc__'', NotEasing),
      (''__package__'', NotEasing),
      (''__loader__'', NotEasing),
      (''__spec__'', NotEasing),
      (''__file__'', NotEasing),
      (''__cached__'', NotEasing),
      (''__builtins__'', NotEasing)]"

section \<open>Effects and sections (specialeffects.py)\<close>

datatype LightAction = TURN_ON | TURN_OFF | SET_COLOR

datatype player = DefaultPlayer | Player nat

datatype pyval = IntV int | StrV string | NoneV

type_synonym light = nat

type_synonym color = "int \<times> int \<times> int"

text \<open>
  A \<open>LightEffect\<close> wraps a closure. The orchestrator builds four kinds of closure; each
  captures the target name, which is resolved when the closure runs.
\<close>

datatype action =
    LightCall string LightAction
  | SetColor string color
  | ColorTransition string "real \<times> real \<times> real" "real \<times> real \<times> real" real string
  | Delay real

text \<open>
  The classes of effects. The last argument of \<open>SoundEffect\<close> and \<open>LightEffect\<close>, and the
  third of \<open>Section\<close>, is \<open>repeat\<close> (\<open>None\<close> is unbounded). \<open>CustomEffect\<close> holds
  \<open>func\<close>, \<open>args\<close> and \<open>kwargs\<close>; its constructor takes no \<open>repeat\<close> parameter and
  passes \<open>repeat=1\<close> to the base class.
\<close>

datatype effect =
    SoundEffect string player "int option"
  | LightEffect action "int option"
  | CustomEffect string "pyval list" "(string \<times> pyval) list"
  | Section "effect list" bool "int option" "string option"

fun repeat_of :: "effect \<Rightarrow> int option" where
  "repeat_of (SoundEffect sound_file p r) = r"
| "repeat_of (LightEffect a r) = r"
| "repeat_of (CustomEffect func args kwargs) = Some 1"
| "repeat_of (Section effs par r nm) = r"

fun isinstance_Section :: "effect \<Rightarrow> bool" where
  "isinstance_Section (Section effs par r nm) = True"
| "isinstance_Section _ = False"

text \<open>What a coroutine returns: \<open>None\<close>, or the task created for an unbounded section.\<close>

datatype retval = PyNone | Task effect

fun isinstance_Task :: "retval \<Rightarrow> bool" where
  "isinstance_Task (Task e) = True"
| "isinstance_Task PyNone = False"

text \<open>
  What a run does to the outside, in the order of the calling coroutine: calls of the
  device, player and worker-thread capabilities, sleeps, and the creation of a
  background task. The members of an \<open>asyncio.gather\<close> run concurrently, so a gather is
  one event holding the trace of each member. The body of a background task is not part
  of the trace of the coroutine that created it.
\<close>

datatype event =
    PlaySound player string
  | TurnOn light
  | TurnOff light
  | SetColorCall light color
  | Sleep real
  | ToThread string "pyval list" "(string \<times> pyval) list"
  | CreateTask effect
  | Gather "event list list"

subsection \<open>What the model takes as input\<close>

text \<open>
  Three things are decided outside the program and are inputs of the model, each a
  sequence that the run consumes in order.
  \<^item> \<open>samples\<close>: the clock and the float arithmetic on its readings. For the reading
    with a given number, taken at the head of the \<open>while True\<close> loop of
    \<open>interpolate_color_over_time\<close>, the entry says what the arithmetic on it gives:
    progress has reached 1 (\<open>Finished\<close>), or else the colour that
    \<open>interpolate_color\<close> returns for the eased progress (\<open>Colour\<close>), or that its
    \<open>int(...)\<close> meets a NaN or an infinity and raises.
  \<^item> \<open>outcomes\<close>: for the external call with a given number (a device call, a player
    call, or a custom callable run on the worker thread), whether it returns
    (\<open>None\<close>) or raises.
  \<^item> \<open>first_raised\<close>: for the gather with a given number, which of the members that
    raise does so first in time.
  The \<open>cursor\<close> counts the clock readings, external calls and gathers made so far.
\<close>

datatype sample = Finished | Colour color | NaN | Infinite

record inputs =
  samples :: "nat \<Rightarrow> sample"
  outcomes :: "nat \<Rightarrow> error option"
  first_raised :: "nat \<Rightarrow> nat"

record cursor =
  ticks :: nat
  calls :: nat
  gathers :: nat

definition start :: cursor where
  "start = \<lparr>ticks = 0, calls = 0, gathers = 0\<rparr>"

text \<open>The inputs under which every external call returns and no clock reading matters.\<close>

definition calm :: inputs where
  "calm = \<lparr>samples = (\<lambda>k. Finished), outcomes = (\<lambda>k. None), first_raised = (\<lambda>k. 0)\<rparr>"

text \<open>
  The device and group registries of the orchestrator. A run reads them, and the
  inputs, from a \<open>world\<close>.
\<close>

record registry =
  lights :: "string \<rightharpoonup> light"
  light_groups :: "string \<rightharpoonup> light list"

record world = registry +
  env :: inputs

type_synonym res = "event list \<times> retval status \<times> cursor"

type_synonym comp = "cursor \<Rightarrow> res"

definition not_found_message :: "string \<Rightarrow> string" where
  "not_found_message name = ''Light or group '' @ [CHR 0x27] @ name @ [CHR 0x27] @ '' not found.''"

text \<open>
  \<open>_get_targets\<close>: \<open>self.lights.get(name) or self.light_groups.get(name)\<close>. A
  registered light is a truthy object, so it wins; otherwise the group entry is taken,
  and only \<open>None\<close> (no group of that name) raises. An empty group is not \<open>None\<close>.
\<close>

definition get_targets :: "'a registry_scheme \<Rightarrow> string \<Rightarrow> error + light list" where
  "get_targets w name =
     (case lights w name of
        Some l \<Rightarrow> Inr [l]
      | None \<Rightarrow>
          (case light_groups w name of
             None \<Rightarrow> Inl (ValueError (not_found_message name))
           | Some ls \<Rightarrow> Inr ls))"

definition prepend :: "event list \<Rightarrow> res \<Rightarrow> res" where
  "prepend t r = (case r of (t', st, c) \<Rightarrow> (t @ t', st, c))"

fun is_Done :: "'a status \<Rightarrow> bool" where
  "is_Done (Done v) = True"
| "is_Done _ = False"

fun is_Raised :: "'a status \<Rightarrow> bool" where
  "is_Raised (Raised e) = True"
| "is_Raised _ = False"

text \<open>An awaited call of an external capability: the call is made, then it returns or raises.\<close>

definition external_call :: "world \<Rightarrow> event \<Rightarrow> comp" where
  "external_call w ev c =
     ([ev],
      (case outcomes (env w) (calls c) of None \<Rightarrow> Done PyNone | Some e \<Rightarrow> Raised e),
      c\<lparr>calls := calls c + 1\<rparr>)"

text \<open>
  Awaiting coroutines one after the other, each starting where the one before ended;
  the first that does not return ends the chain.
\<close>

fun sequence :: "comp list \<Rightarrow> comp" where
  "sequence [] c = ([], Done PyNone, c)"
| "sequence (m # ms) c =
     (case m c of
        (t, Done v, c') \<Rightarrow> prepend t (sequence ms c')
      | r \<Rightarrow> r)"

text \<open>
  \<open>asyncio.gather\<close>: all members are started, in list order, and run concurrently. Each
  member draws its own inputs; the model hands them out member by member. The gather
  raises what the member picked by \<open>first_raised\<close> raises; if no member raises, it
  returns once all have returned.
\<close>

fun run_members :: "comp list \<Rightarrow> cursor \<Rightarrow> (event list \<times> retval status) list \<times> cursor" where
  "run_members [] c = ([], c)"
| "run_members (m # ms) c =
     (case m c of
        (t, st, c') \<Rightarrow> (case run_members ms c' of (rs, c'') \<Rightarrow> ((t, st) # rs, c'')))"

definition gather :: "world \<Rightarrow> comp list \<Rightarrow> comp" where
  "gather w ms c =
     (case run_members ms c of
        (rs, c') \<Rightarrow>
          (let raised = filter is_Raised (map snd rs) in
           ([Gather (map fst rs)],
            (if raised \<noteq> [] then raised ! (first_raised (env w) (gathers c') mod length raised)
             else if list_all is_Done (map snd rs) then Done PyNone
             else OutOfFuel),
            c'\<lparr>gathers := gathers c' + 1\<rparr>)))"

text \<open>\<open>for _ in range(n)\<close> around a body, and \<open>for _ in itertools.count()\<close> around it.\<close>

fun iterate :: "nat \<Rightarrow> comp \<Rightarrow> comp" where
  "iterate 0 body c = ([], Done PyNone, c)"
| "iterate (Suc n) body c =
     (case body c of
        (t, Done v, c') \<Rightarrow> prepend t (iterate n body c')
      | r \<Rightarrow> r)"

fun forever :: "nat \<Rightarrow> comp \<Rightarrow> comp" where
  "forever 0 body c = ([], OutOfFuel, c)"
| "forever (Suc fuel) body c =
     (case body c of
        (t, Done v, c') \<Rightarrow> prepend t (forever fuel body c')
      | r \<Rightarrow> r)"

definition repeat_loop :: "nat \<Rightarrow> int option \<Rightarrow> comp \<Rightarrow> comp" where
  "repeat_loop fuel repeat body =
     (case repeat of None \<Rightarrow> forever fuel body | Some n \<Rightarrow> iterate (nat n) body)"

text \<open>\<open>getattr(light, action.value)()\<close>: \<open>set_color\<close> without arguments is a \<open>TypeError\<close>.\<close>

fun light_call :: "world \<Rightarrow> LightAction \<Rightarrow> light \<Rightarrow> comp" where
  "light_call w TURN_ON l c = external_call w (TurnOn l) c"
| "light_call w TURN_OFF l c = external_call w (TurnOff l) c"
| "light_call w SET_COLOR l c = ([], Raised TypeError, c)"

text \<open>
  The closure of \<open>add_light_color_transition\<close> after its targets are resolved: the
  \<open>async for\<close> over \<open>interpolate_color_over_time\<close>, generator and loop body in the
  order in which they run. The generator first looks the easing name up, then reads the
  clock for \<open>start_time\<close>. Each turn of its loop reads the clock, divides by
  \<open>duration\<close>, ends if progress has reached 1, calls the easing function, computes and
  yields the colour; the loop body gathers \<open>set_color\<close> on all targets; the generator
  sleeps 0.1.
\<close>

fun sample_loop :: "nat \<Rightarrow> world \<Rightarrow> light list \<Rightarrow> real \<Rightarrow> global_entry \<Rightarrow> comp" where
  "sample_loop 0 w targets duration easing_function c = ([], OutOfFuel, c)"
| "sample_loop (Suc fuel) w targets duration easing_function c =
     (let c1 = c\<lparr>ticks := ticks c + 1\<rparr> in
      if duration = 0 then ([], Raised ZeroDivisionError, c1)
      else (case (samples (env w) (ticks c), easing_function) of
              (Finished, g) \<Rightarrow> ([], Done PyNone, c1)
            | (smp, NotEasing) \<Rightarrow> ([], Raised TypeError, c1)
            | (NaN, EasingFn f) \<Rightarrow>
                ([], Raised (ValueError ''cannot convert float NaN to integer''), c1)
            | (Infinite, EasingFn f) \<Rightarrow> ([], Raised OverflowError, c1)
            | (Colour current_color, EasingFn f) \<Rightarrow>
                (case gather w (map (\<lambda>l. external_call w (SetColorCall l current_color)) targets) c1 of
                   (t, Done v, c2) \<Rightarrow>
                     prepend (t @ [Sleep (1 / 10)])
                       (sample_loop fuel w targets duration easing_function c2)
                 | r \<Rightarrow> r)))"

definition color_transition :: "nat \<Rightarrow> world \<Rightarrow> light list \<Rightarrow> real \<Rightarrow> string \<Rightarrow> comp" where
  "color_transition fuel w targets duration easing_func c =
     (case easing_globals easing_func of
        None \<Rightarrow> ([], Raised (KeyError easing_func), c)
      | Some easing_function \<Rightarrow>
          sample_loop fuel w targets duration easing_function (c\<lparr>ticks := ticks c + 1\<rparr>))"

text \<open>One call of the closure wrapped by a \<open>LightEffect\<close>.\<close>

fun do_action :: "nat \<Rightarrow> world \<Rightarrow> action \<Rightarrow> comp" where
  "do_action fuel w (LightCall name act) c =
     (case get_targets w name of
        Inl e \<Rightarrow> ([], Raised e, c)
      | Inr targets \<Rightarrow> sequence (map (light_call w act) targets) c)"
| "do_action fuel w (SetColor name col) c =
     (case get_targets w name of
        Inl e \<Rightarrow> ([], Raised e, c)
      | Inr targets \<Rightarrow> sequence (map (\<lambda>l. external_call w (SetColorCall l col)) targets) c)"
| "do_action fuel w (ColorTransition name start_color end_color duration easing_type) c =
     (case get_targets w name of
        Inl e \<Rightarrow> ([], Raised e, c)
      | Inr targets \<Rightarrow> color_transition fuel w targets duration easing_type c)"
| "do_action fuel w (Delay seconds) c = ([Sleep seconds], Done PyNone, c)"

text \<open>
  \<open>run\<close> of each class, and \<open>Section._run_effect\<close>. \<open>fuel\<close> bounds the turns of every
  unbounded loop. \<open>CustomEffect.run\<close> hands the callable to the worker thread and awaits
  it, once.
\<close>

fun run :: "nat \<Rightarrow> world \<Rightarrow> effect \<Rightarrow> comp"
  and run_effect :: "nat \<Rightarrow> world \<Rightarrow> effect \<Rightarrow> comp" where
  "run fuel w (SoundEffect sound_file p repeat) c =
     repeat_loop fuel repeat (external_call w (PlaySound p sound_file)) c"
| "run fuel w (LightEffect a repeat) c = repeat_loop fuel repeat (do_action fuel w a) c"
| "run fuel w (CustomEffect func args kwargs) c = external_call w (ToThread func args kwargs) c"
| "run fuel w (Section effs par repeat name) c =
     repeat_loop fuel repeat
       (if par then gather w (map (\<lambda>e. run_effect fuel w e) effs)
        else sequence (map (\<lambda>e. run_effect fuel w e) effs)) c"
| "run_effect fuel w e c =
     (if isinstance_Section e \<and> repeat_of e = None
      then ([CreateTask e, Sleep 0], Done (Task e), c)
      else run fuel w e c)"

section \<open>The orchestrator (class SpecialEffect)\<close>

text \<open>
  Sections are objects with identity, and two section objects can hold the same Python
  list. The orchestrator's state therefore carries a store of section objects and a
  store of lists, both addressed by numbers; a child of a list is a leaf effect or a
  reference to a section object. New objects and lists take the next free address.
\<close>

datatype node = Obj effect | Ref nat

record section_obj =
  so_effects :: nat
  so_parallel :: bool
  so_repeat :: "int option"
  so_name :: "string option"

record SpecialEffect = registry +
  effects :: "node list"
  named_effects :: "string \<rightharpoonup> nat"
  current_section :: "nat option"
  sections :: "nat \<Rightarrow> section_obj"
  lists :: "nat \<Rightarrow> node list"
  next_section :: nat
  next_list :: nat

definition SpecialEffect_init :: SpecialEffect where
  "SpecialEffect_init =
     \<lparr>lights = Map.empty, light_groups = Map.empty, effects = [], named_effects = Map.empty,
      current_section = None,
      sections = (\<lambda>a. \<lparr>so_effects = 0, so_parallel = False, so_repeat = Some 1, so_name = None\<rparr>),
      lists = (\<lambda>a. []),
      next_section = 0, next_list = 0\<rparr>"

text \<open>The list held by the section object at an address, and \<open>append\<close> on that list.\<close>

definition section_effects :: "SpecialEffect \<Rightarrow> nat \<Rightarrow> node list" where
  "section_effects self a = lists self (so_effects (sections self a))"

definition append_to_section :: "SpecialEffect \<Rightarrow> nat \<Rightarrow> node \<Rightarrow> SpecialEffect" where
  "append_to_section self a x =
     self\<lparr>lists := (lists self)(so_effects (sections self a) := section_effects self a @ [x])\<rparr>"

text \<open>\<open>if name\<close>: \<open>None\<close> and the empty string are falsy.\<close>

fun name_key :: "string option \<Rightarrow> string option" where
  "name_key None = None"
| "name_key (Some s) = (if s = [] then None else Some s)"

text \<open>
  The context manager \<open>section\<close>: \<open>section_enter\<close> is the code before \<open>yield\<close>,
  \<open>section_exit\<close> the code after it. Both branches of \<open>section_enter\<close> construct a
  new \<open>Section\<close> object; for a name already registered the new object takes the
  registered object's list, and the registry keeps the old object.
\<close>

definition section_enter ::
  "SpecialEffect \<Rightarrow> string option \<Rightarrow> bool option \<Rightarrow> int option \<Rightarrow> (nat \<times> nat option) \<times> SpecialEffect" where
  "section_enter self name par repeat =
     (let new_section = next_section self;
          registered = (case name_key name of None \<Rightarrow> None | Some k \<Rightarrow> named_effects self k);
          self1 = (case registered of
                     Some old \<Rightarrow>
                       self\<lparr>sections := (sections self)(new_section :=
                               \<lparr>so_effects = so_effects (sections self old),
                                so_parallel = (case par of Some p \<Rightarrow> p
                                               | None \<Rightarrow> so_parallel (sections self old)),
                                so_repeat = repeat, so_name = name\<rparr>),
                            next_section := new_section + 1\<rparr>
                   | None \<Rightarrow>
                       self\<lparr>named_effects := (case name_key name of
                                                None \<Rightarrow> named_effects self
                                              | Some k \<Rightarrow> (named_effects self)(k \<mapsto> new_section)),
                            sections := (sections self)(new_section :=
                               \<lparr>so_effects = next_list self,
                                so_parallel = (case par of Some p \<Rightarrow> p | None \<Rightarrow> False),
                                so_repeat = repeat, so_name = name\<rparr>),
                            lists := (lists self)(next_list self := []),
                            next_section := new_section + 1,
                            next_list := next_list self + 1\<rparr>);
          previous_section = current_section self1
      in ((new_section, previous_section), self1\<lparr>current_section := Some new_section\<rparr>))"

definition section_exit :: "SpecialEffect \<Rightarrow> nat \<times> nat option \<Rightarrow> SpecialEffect" where
  "section_exit self scope =
     (case scope of (new_section, previous_section) \<Rightarrow>
        let self1 = self\<lparr>current_section := previous_section\<rparr> in
        (case previous_section of
           Some p \<Rightarrow>
             (if Ref new_section \<notin> set (section_effects self1 p)
              then append_to_section self1 p (Ref new_section) else self1)
         | None \<Rightarrow>
             (if Ref new_section \<notin> set (effects self1)
              then self1\<lparr>effects := effects self1 @ [Ref new_section]\<rparr> else self1)))"

text \<open>\<open>with self.section(name, parallel, repeat): body\<close>.\<close>

definition with_section ::
  "SpecialEffect \<Rightarrow> string option \<Rightarrow> bool option \<Rightarrow> int option \<Rightarrow> (SpecialEffect \<Rightarrow> SpecialEffect)
     \<Rightarrow> SpecialEffect" where
  "with_section self name par repeat body =
     (case section_enter self name par repeat of (scope, self1) \<Rightarrow> section_exit (body self1) scope)"

definition add_light :: "SpecialEffect \<Rightarrow> string \<Rightarrow> light \<Rightarrow> SpecialEffect" where
  "add_light self name l = self\<lparr>lights := (lights self)(name \<mapsto> l)\<rparr>"

definition add_light_group :: "SpecialEffect \<Rightarrow> string \<Rightarrow> string list \<Rightarrow> SpecialEffect" where
  "add_light_group self name light_names =
     self\<lparr>light_groups := (light_groups self)(name \<mapsto> List.map_filter (lights self) light_names)\<rparr>"

text \<open>
  \<open>_add_effect\<close> appends to the list of the section whose scope is open, or to the
  top-level list when none is. \<open>target_list\<close> is that list.
\<close>

definition add_effect :: "SpecialEffect \<Rightarrow> effect \<Rightarrow> SpecialEffect" where
  "add_effect self e =
     (case current_section self of
        Some c \<Rightarrow> append_to_section self c (Obj e)
      | None \<Rightarrow> self\<lparr>effects := effects self @ [Obj e]\<rparr>)"

definition target_list :: "SpecialEffect \<Rightarrow> node list" where
  "target_list self =
     (case current_section self of
        Some c \<Rightarrow> section_effects self c
      | None \<Rightarrow> effects self)"

definition create_light_effect :: "SpecialEffect \<Rightarrow> string \<Rightarrow> LightAction \<Rightarrow> SpecialEffect" where
  "create_light_effect self name act = add_effect self (LightEffect (LightCall name act) (Some 1))"

definition add_light_on :: "SpecialEffect \<Rightarrow> string \<Rightarrow> SpecialEffect" where
  "add_light_on self name = create_light_effect self name TURN_ON"

definition add_light_off :: "SpecialEffect \<Rightarrow> string \<Rightarrow> SpecialEffect" where
  "add_light_off self name = create_light_effect self name TURN_OFF"

definition add_light_color :: "SpecialEffect \<Rightarrow> string \<Rightarrow> color \<Rightarrow> SpecialEffect" where
  "add_light_color self name col = add_effect self (LightEffect (SetColor name col) (Some 1))"

definition add_light_color_transition ::
  "SpecialEffect \<Rightarrow> string \<Rightarrow> real \<times> real \<times> real \<Rightarrow> real \<times> real \<times> real \<Rightarrow> real \<Rightarrow> string
     \<Rightarrow> SpecialEffect" where
  "add_light_color_transition self name start_color end_color duration easing_type =
     add_effect self
       (LightEffect (ColorTransition name start_color end_color duration easing_type) (Some 1))"

definition add_sound :: "SpecialEffect \<Rightarrow> string \<Rightarrow> player option \<Rightarrow> SpecialEffect" where
  "add_sound self sound_file p =
     add_effect self
       (SoundEffect sound_file (case p of None \<Rightarrow> DefaultPlayer | Some q \<Rightarrow> q) (Some 1))"

definition add_delay :: "SpecialEffect \<Rightarrow> real \<Rightarrow> SpecialEffect" where
  "add_delay self seconds = add_effect self (LightEffect (Delay seconds) (Some 1))"

definition add_custom ::
  "SpecialEffect \<Rightarrow> string \<Rightarrow> pyval list \<Rightarrow> (string \<times> pyval) list \<Rightarrow> SpecialEffect" where
  "add_custom self func args kwargs = add_effect self (CustomEffect func args kwargs)"

text \<open>
  A run only reads the objects, so the effect a node stands for is the tree obtained by
  following the references. \<open>depth\<close> bounds the nesting; a structure nested deeper
  (in particular a cyclic one) has no tree within the bound.
\<close>

fun tree_of :: "nat \<Rightarrow> SpecialEffect \<Rightarrow> node \<Rightarrow> effect option" where
  "tree_of depth self (Obj e) = Some e"
| "tree_of 0 self (Ref a) = None"
| "tree_of (Suc depth) self (Ref a) =
     (case those (map (tree_of depth self) (section_effects self a)) of
        None \<Rightarrow> None
      | Some es \<Rightarrow>
          Some (Section es (so_parallel (sections self a)) (so_repeat (sections self a))
                  (so_name (sections self a))))"

text \<open>
  \<open>_play_async\<close>: the loop over the top-level effects with the list \<open>tasks\<close>, then the
  gather of the collected tasks. The result is the trace, the tasks that were collected,
  how the coroutine ended, and the cursor.
\<close>

fun play_loop ::
  "nat \<Rightarrow> world \<Rightarrow> effect list \<Rightarrow> retval list \<Rightarrow> cursor
     \<Rightarrow> event list \<times> retval list \<times> retval status \<times> cursor" where
  "play_loop fuel w [] tasks c = ([], tasks, Done PyNone, c)"
| "play_loop fuel w (e # es) tasks c =
     (case run fuel w e c of
        (t, Done result, c') \<Rightarrow>
          (case play_loop fuel w es (if isinstance_Task result then tasks @ [result] else tasks) c' of
             (t', tasks', st, c'') \<Rightarrow> (t @ t', tasks', st, c''))
      | (t, st, c') \<Rightarrow> (t, tasks, st, c'))"

fun await_task :: "nat \<Rightarrow> world \<Rightarrow> retval \<Rightarrow> comp" where
  "await_task fuel w (Task e) c = run fuel w e c"
| "await_task fuel w PyNone c = ([], Done PyNone, c)"

definition play_async ::
  "nat \<Rightarrow> world \<Rightarrow> effect list \<Rightarrow> event list \<times> retval list \<times> retval status \<times> cursor" where
  "play_async fuel w effs =
     (case play_loop fuel w effs [] start of
        (t, tasks, st, c) \<Rightarrow>
          (if is_Done st \<and> tasks \<noteq> []
           then (case gather w (map (await_task fuel w) tasks) c of
                   (t', st', c') \<Rightarrow> (t @ t', tasks, st', c'))
           else (t, tasks, st, c)))"

definition world_of :: "SpecialEffect \<Rightarrow> inputs \<Rightarrow> world" where
  "world_of self i = \<lparr>lights = lights self, light_groups = light_groups self, env = i\<rparr>"

text \<open>
  \<open>play\<close>, for a bound \<open>fuel\<close> on nesting and on loops and the inputs \<open>i\<close>. \<open>None\<close>:
  the structure has no tree within the bound.
\<close>

definition play ::
  "nat \<Rightarrow> inputs \<Rightarrow> SpecialEffect
     \<Rightarrow> (event list \<times> retval list \<times> retval status \<times> cursor) option" where
  "play fuel i self =
     (case those (map (tree_of fuel self) (effects self)) of
        None \<Rightarrow> None
      | Some effs \<Rightarrow> Some (play_async fuel (world_of self i) effs))"

section \<open>Auxiliary facts\<close>

lemma iterate_Done: "fst (snd (iterate n b c)) = Done r \<Longrightarrow> r = PyNone"
proof (induction n arbitrary: c)
  case 0
  then show ?case by simp
next
  case (Suc n)
  obtain t1 s1 c1 where b: "b c = (t1, s1, c1)" by (cases "b c")
  show ?case
  proof (cases s1)
    case (Done v)
    with Suc.prems b have "fst (snd (iterate n b c1)) = Done r"
      by (simp add: prepend_def split: prod.splits)
    with Suc.IH show ?thesis by blast
  next
    case (Raised e)
    with Suc.prems b show ?thesis by simp
  next
    case OutOfFuel
    with Suc.prems b show ?thesis by simp
  qed
qed

lemma forever_not_Done: "fst (snd (forever k b c)) \<noteq> Done r"
proof (induction k arbitrary: c)
  case 0
  then show ?case by simp
next
  case (Suc k)
  obtain t1 s1 c1 where b: "b c = (t1, s1, c1)" by (cases "b c")
  show ?case
  proof (cases s1)
    case (Done v)
    with Suc.IH [of c1] b show ?thesis by (auto simp: prepend_def split: prod.splits)
  next
    case (Raised e)
    with b show ?thesis by simp
  next
    case OutOfFuel
    with b show ?thesis by simp
  qed
qed

lemma repeat_loop_Done: "repeat_loop fuel rep b c = (t, Done r, c') \<Longrightarrow> r = PyNone"
proof (cases rep)
  case None
  assume "repeat_loop fuel rep b c = (t, Done r, c')"
  with None have "fst (snd (forever fuel b c)) = Done r" by (simp add: repeat_loop_def)
  then show ?thesis by (simp add: forever_not_Done)
next
  case (Some n)
  assume "repeat_loop fuel rep b c = (t, Done r, c')"
  with Some have "fst (snd (iterate (nat n) b c)) = Done r" by (simp add: repeat_loop_def)
  then show ?thesis by (rule iterate_Done)
qed

lemma external_call_Done: "external_call w ev c = (t, Done r, c') \<Longrightarrow> r = PyNone"
  by (auto simp: external_call_def split: option.splits)

lemma run_Done: "run fuel w e c = (t, Done r, c') \<Longrightarrow> r = PyNone"
  by (cases e) (auto dest: repeat_loop_Done external_call_Done)

lemma play_loop_tasks: "play_loop fuel w es tasks c = (t, tasks', st, c') \<Longrightarrow> tasks' = tasks"
proof (induction es arbitrary: t c)
  case Nil
  then show ?case by simp
next
  case (Cons e es)
  obtain t1 s1 c1 where r: "run fuel w e c = (t1, s1, c1)" by (cases "run fuel w e c")
  show ?case
  proof (cases s1)
    case (Done x)
    then have "x = PyNone" using r run_Done by blast
    with Cons r Done show ?thesis by (auto split: prod.splits)
  next
    case (Raised x)
    with Cons r show ?thesis by simp
  next
    case OutOfFuel
    with Cons r show ?thesis by simp
  qed
qed

lemma play_loop_snoc:
  "play_loop fuel w es tasks c = (t, tasks', Done r, c') \<Longrightarrow>
   play_loop fuel w (es @ [e]) tasks c =
     (t @ fst (run fuel w e c'), tasks, fst (snd (run fuel w e c')), snd (snd (run fuel w e c')))"
proof (induction es arbitrary: t c tasks')
  case Nil
  obtain t1 s1 c1 where r: "run fuel w e c = (t1, s1, c1)" by (cases "run fuel w e c")
  show ?case using Nil r run_Done [of fuel w e c t1 _ c1] by (cases s1) auto
next
  case (Cons a es)
  obtain t1 s1 c1 where r: "run fuel w a c = (t1, s1, c1)" by (cases "run fuel w a c")
  show ?case
  proof (cases s1)
    case (Done x)
    then have x: "x = PyNone" using r run_Done by blast
    obtain t2 k2 s2 c2 where p: "play_loop fuel w es tasks c1 = (t2, k2, s2, c2)"
      by (cases "play_loop fuel w es tasks c1")
    from Cons.prems r Done x p have "s2 = Done r" "t = t1 @ t2" "c2 = c'" by auto
    with Cons.IH [of c1 t2 k2] p r Done x show ?thesis by simp
  next
    case (Raised x)
    with Cons r show ?thesis by simp
  next
    case OutOfFuel
    with Cons r show ?thesis by simp
  qed
qed

lemma tree_of_heap:
  "sections a = sections b \<Longrightarrow> lists a = lists b \<Longrightarrow> tree_of d a n = tree_of d b n"
proof (induction d arbitrary: n)
  case 0
  then show ?case by (cases n) simp_all
next
  case (Suc d)
  have m: "tree_of d a = tree_of d b"
    using Suc by (intro ext) simp
  show ?case
  proof (cases n)
    case (Obj e)
    then show ?thesis by simp
  next
    case (Ref x)
    then show ?thesis using Suc.prems by (simp add: m section_effects_def split: option.splits)
  qed
qed

lemma those_snoc:
  "those (map f xs) = Some es \<Longrightarrow> those (map f (xs @ [x])) = map_option (\<lambda>e. es @ [e]) (f x)"
proof (induction xs arbitrary: es)
  case Nil
  then show ?case by (cases "f x") auto
next
  case (Cons a xs)
  then show ?case by (cases "f x") (auto split: option.splits)
qed

lemma play_async_tasks: "play_async fuel w es = (t, tasks, st, c) \<Longrightarrow> tasks = []"
proof -
  assume a: "play_async fuel w es = (t, tasks, st, c)"
  obtain t0 k0 s0 c0 where p: "play_loop fuel w es [] start = (t0, k0, s0, c0)"
    by (cases "play_loop fuel w es [] start")
  then have "k0 = []" by (rule play_loop_tasks)
  with a p show ?thesis by (simp add: play_async_def)
qed

lemma play_async_snoc:
  assumes "play_async fuel w es = (t, tasks, Done r, c)"
  shows "play_async fuel w (es @ [e]) =
           (t @ fst (run fuel w e c), [], fst (snd (run fuel w e c)), snd (snd (run fuel w e c)))"
proof -
  obtain t0 k0 s0 c0 where p: "play_loop fuel w es [] start = (t0, k0, s0, c0)"
    by (cases "play_loop fuel w es [] start")
  then have k: "k0 = []" by (rule play_loop_tasks)
  from assms p k have "t0 = t" "s0 = Done r" "c0 = c" by (simp_all add: play_async_def)
  with p k have "play_loop fuel w (es @ [e]) [] start =
      (t @ fst (run fuel w e c), [], fst (snd (run fuel w e c)), snd (snd (run fuel w e c)))"
    using play_loop_snoc [of fuel w es "[]" start t "[]" r c e] by simp
  then show ?thesis by (simp add: play_async_def)
qed

lemma play_add_effect:
  assumes "current_section self = None" and "play fuel i self = Some (t, tasks, Done r, c)"
  shows "play fuel i (add_effect self e) =
           Some (t @ fst (run fuel (world_of self i) e c), [],
                 fst (snd (run fuel (world_of self i) e c)), snd (snd (run fuel (world_of self i) e c)))"
proof -
  let ?self' = "self\<lparr>effects := effects self @ [Obj e]\<rparr>"
  have a: "add_effect self e = ?self'" using assms(1) by (simp add: add_effect_def)
  obtain es where es: "those (map (tree_of fuel self) (effects self)) = Some es"
    and pa: "play_async fuel (world_of self i) es = (t, tasks, Done r, c)"
    using assms(2) by (auto simp: play_def split: option.splits)
  have "tree_of fuel ?self' = tree_of fuel self"
    by (intro ext tree_of_heap) simp_all
  then have "those (map (tree_of fuel ?self') (effects ?self')) = Some (es @ [e])"
    using those_snoc [OF es, of "Obj e"] by simp
  moreover have "world_of ?self' i = world_of self i" by (simp add: world_of_def)
  ultimately show ?thesis using play_async_snoc [OF pa, of e] by (simp add: a play_def)
qed

lemma target_list_add_effect: "target_list (add_effect self e) = target_list self @ [Obj e]"
  by (cases "current_section self")
     (simp_all add: target_list_def add_effect_def append_to_section_def section_effects_def)

lemma world_of_registry:
  "lights (world_of self i) = lights self" "light_groups (world_of self i) = light_groups self"
  "env (world_of self i) = i"
  by (simp_all add: world_of_def)

lemma get_targets_world_of: "get_targets (world_of self i) name = get_targets self name"
  by (simp add: get_targets_def world_of_registry split: option.splits)

lemma iterate_once_raised: "body c = (t, Raised e, c') \<Longrightarrow> iterate (Suc n) body c = (t, Raised e, c')"
  by simp

lemma play_init: "play fuel i SpecialEffect_init = Some ([], [], Done PyNone, start)"
  by (simp add: play_def SpecialEffect_init_def play_async_def)

lemma not_found_message_names: "\<exists>p s. not_found_message name = p @ name @ s"
proof -
  have "not_found_message name =
          (''Light or group '' @ [CHR 0x27]) @ name @ ([CHR 0x27] @ '' not found.'')"
    by (simp add: not_found_message_def)
  then show ?thesis by blast
qed

lemma sequence_Done: "fst (snd (sequence ms c)) = Done r \<Longrightarrow> r = PyNone"
proof (induction ms arbitrary: c)
  case Nil
  then show ?case by simp
next
  case (Cons m ms)
  obtain t1 s1 c1 where b: "m c = (t1, s1, c1)" by (cases "m c")
  show ?case
  proof (cases s1)
    case (Done v)
    with Cons.prems b have "fst (snd (sequence ms c1)) = Done r"
      by (simp add: prepend_def split: prod.splits)
    with Cons.IH show ?thesis by blast
  next
    case (Raised e)
    with Cons.prems b show ?thesis by simp
  next
    case OutOfFuel
    with Cons.prems b show ?thesis by simp
  qed
qed

lemma filter_nth_Raised:
  "k < length (filter is_Raised xs) \<Longrightarrow> filter is_Raised xs ! k \<noteq> Done r"
proof -
  assume "k < length (filter is_Raised xs)"
  then have "filter is_Raised xs ! k \<in> set (filter is_Raised xs)" by (rule nth_mem)
  then have "is_Raised (filter is_Raised xs ! k)" by simp
  then show ?thesis by (cases "filter is_Raised xs ! k") auto
qed

lemma gather_Done: "fst (snd (gather w ms c)) = Done r \<Longrightarrow> r = PyNone"
proof -
  assume a: "fst (snd (gather w ms c)) = Done r"
  obtain rs c' where rm: "run_members ms c = (rs, c')" by (cases "run_members ms c")
  let ?raised = "filter is_Raised (map snd rs)"
  from a have st:
    "(if ?raised \<noteq> [] then ?raised ! (first_raised (env w) (gathers c') mod length ?raised)
      else if list_all is_Done (map snd rs) then Done PyNone else OutOfFuel) = Done r"
    by (simp only: gather_def rm Let_def prod.case fst_conv snd_conv)
  show ?thesis
  proof (cases "?raised = []")
    case True
    with st show ?thesis by (simp split: if_splits)
  next
    case False
    then have "0 < length ?raised" by blast
    then have "first_raised (env w) (gathers c') mod length ?raised < length ?raised"
      by (rule mod_less_divisor)
    then have "?raised ! (first_raised (env w) (gathers c') mod length ?raised) \<noteq> Done r"
      by (rule filter_nth_Raised)
    moreover from st False
    have "?raised ! (first_raised (env w) (gathers c') mod length ?raised) = Done r"
      by (simp only: if_True simp_thms)
    ultimately show ?thesis by blast
  qed
qed

lemma gather_empty: "gather w [] c = ([Gather []], Done PyNone, c\<lparr>gathers := gathers c + 1\<rparr>)"
  by (simp add: gather_def)

lemma sample_loop_Done:
  "fst (snd (sample_loop fuel w targets d g c)) = Done r \<Longrightarrow> r = PyNone"
proof (induction fuel arbitrary: c)
  case 0
  then show ?case by simp
next
  case (Suc fuel)
  show ?case
  proof (cases "d = 0")
    case True
    with Suc.prems show ?thesis by simp
  next
    case False
    show ?thesis
    proof (cases "samples (env w) (ticks c)")
      case Finished
      with Suc.prems False show ?thesis by (simp add: Let_def)
    next
      case NaN
      with Suc.prems False show ?thesis by (cases g) (simp_all add: Let_def)
    next
      case Infinite
      with Suc.prems False show ?thesis by (cases g) (simp_all add: Let_def)
    next
      case (Colour col)
      show ?thesis
      proof (cases g)
        case NotEasing
        with Suc.prems False Colour show ?thesis by (simp add: Let_def)
      next
        case (EasingFn f)
        let ?c1 = "c\<lparr>ticks := ticks c + 1\<rparr>"
        obtain t1 s1 c2 where gt: "gather w (map (\<lambda>l. external_call w (SetColorCall l col)) targets) ?c1 = (t1, s1, c2)"
          by (cases "gather w (map (\<lambda>l. external_call w (SetColorCall l col)) targets) ?c1")
        show ?thesis
        proof (cases s1)
          case (Done v)
          with Suc.prems False Colour EasingFn gt
          have "fst (snd (sample_loop fuel w targets d g c2)) = Done r"
            by (simp add: Let_def prepend_def split: prod.splits)
          with Suc.IH show ?thesis by blast
        next
          case (Raised e)
          with Suc.prems False Colour EasingFn gt show ?thesis by (simp add: Let_def)
        next
          case OutOfFuel
          with Suc.prems False Colour EasingFn gt show ?thesis by (simp add: Let_def)
        qed
      qed
    qed
  qed
qed

lemma do_action_Done: "fst (snd (do_action fuel w a c)) = Done r \<Longrightarrow> r = PyNone"
proof (cases a)
  case (LightCall name act)
  assume "fst (snd (do_action fuel w a c)) = Done r"
  with LightCall show ?thesis by (auto split: sum.splits dest: sequence_Done)
next
  case (SetColor name col)
  assume "fst (snd (do_action fuel w a c)) = Done r"
  with SetColor show ?thesis by (auto split: sum.splits dest: sequence_Done)
next
  case (ColorTransition name s e d ez)
  assume "fst (snd (do_action fuel w a c)) = Done r"
  with ColorTransition show ?thesis
    by (auto simp: color_transition_def split: sum.splits option.splits dest: sample_loop_Done)
next
  case (Delay x)
  assume "fst (snd (do_action fuel w a c)) = Done r"
  with Delay show ?thesis by simp
qed

lemma run_light_once: "run fuel w (LightEffect a (Some 1)) c = do_action fuel w a c"
proof -
  have "iterate (Suc 0) (do_action fuel w a) c = do_action fuel w a c"
  proof (cases "do_action fuel w a c" rule: prod_cases3)
    case (fields t st c')
    show ?thesis
    proof (cases st)
      case (Done v)
      with fields have "v = PyNone" using do_action_Done [of fuel w a c v] by simp
      with fields Done show ?thesis by (simp add: prepend_def)
    next
      case (Raised e)
      with fields show ?thesis by simp
    next
      case OutOfFuel
      with fields show ?thesis by simp
    qed
  qed
  then show ?thesis by (simp add: repeat_loop_def)
qed

lemma iterate_nonpos: "n \<le> 0 \<Longrightarrow> repeat_loop fuel (Some n) body c = ([], Done PyNone, c)"
  by (simp add: repeat_loop_def)

lemma run_effect_bounded:
  "\<not> (isinstance_Section e \<and> repeat_of e = None) \<Longrightarrow> run_effect fuel w e c = run fuel w e c"
  by auto

lemma add_light_group_fields:
  "current_section (add_light_group self name ns) = current_section self"
  "effects (add_light_group self name ns) = effects self"
  "lights (add_light_group self name ns) = lights self"
  by (simp_all add: add_light_group_def)

lemma map_filter_all_None: "\<forall>x \<in> set xs. f x = None \<Longrightarrow> List.map_filter f xs = []"
  by (induction xs) (simp_all add: List.map_filter_simps)

lemma nan_message_differs: "''cannot convert float NaN to integer'' \<noteq> not_found_message m"
  by (simp add: not_found_message_def)

lemma sample_loop_no_targets:
  "list_all (\<lambda>ev. ev = Gather [] \<or> ev = Sleep (1 / 10)) (fst (sample_loop fuel w [] d g c)) \<and>
   fst (snd (sample_loop fuel w [] d g c)) \<noteq> Raised (ValueError (not_found_message m))"
proof (induction fuel arbitrary: c)
  case 0
  then show ?case by simp
next
  case (Suc fuel)
  show ?case
  proof (cases "d = 0")
    case True
    then show ?thesis by simp
  next
    case False
    show ?thesis
    proof (cases "samples (env w) (ticks c)")
      case Finished
      with False show ?thesis by (simp add: Let_def)
    next
      case NaN
      with False show ?thesis by (cases g) (simp_all add: Let_def nan_message_differs)
    next
      case Infinite
      with False show ?thesis by (cases g) (simp_all add: Let_def)
    next
      case (Colour col)
      show ?thesis
      proof (cases g)
        case NotEasing
        with False Colour show ?thesis by (simp add: Let_def)
      next
        case (EasingFn f)
        with False Colour Suc.IH [of "c\<lparr>ticks := ticks c + 1, gathers := gathers c + 1\<rparr>"]
        show ?thesis by (auto simp: Let_def gather_empty prepend_def split: prod.splits)
      qed
    qed
  qed
qed

lemma color_transition_no_targets:
  "list_all (\<lambda>ev. ev = Gather [] \<or> ev = Sleep (1 / 10)) (fst (color_transition fuel w [] d ez c)) \<and>
   fst (snd (color_transition fuel w [] d ez c)) \<noteq> Raised (ValueError (not_found_message m))"
  using sample_loop_no_targets [of fuel w d _ "c\<lparr>ticks := ticks c + 1\<rparr>" m]
  by (cases "easing_globals ez") (simp_all add: color_transition_def)

lemma run_missing_target:
  assumes "get_targets w name = Inl err"
    and "a = SetColor name col \<or> a = LightCall name act \<or> a = ColorTransition name s e d ez"
  shows "run fuel w (LightEffect a (Some 1)) c = ([], Raised err, c)"
  using assms by (auto simp: run_light_once simp del: run.simps)

section \<open>Properties\<close>

text \<open>
  C1. The tree is built through the builder: a section with repeat 1 holding an
  unbounded section that holds a delay. \<open>play\<close> creates the task for the unbounded
  child and then ends normally with an empty list of collected tasks: \<open>Section.run\<close>
  drops the task that \<open>_run_effect\<close> returns, so \<open>_play_async\<close> never sees a task and
  awaits nothing, although the child, run on its own, does not end.
\<close>

theorem play_collects_no_task:
  "play 3 calm
     (with_section SpecialEffect_init None None (Some 1)
        (\<lambda>s. with_section s None None None (\<lambda>s. add_delay s 1))) =
     Some ([CreateTask (Section [LightEffect (Delay 1) (Some 1)] False None None), Sleep 0], [],
           Done PyNone, start) \<and>
   run 3 \<lparr>lights = Map.empty, light_groups = Map.empty, env = calm\<rparr>
     (Section [LightEffect (Delay 1) (Some 1)] False None None) start =
     ([Sleep 1, Sleep 1, Sleep 1], OutOfFuel, start)"
  by (simp add: with_section_def section_enter_def section_exit_def SpecialEffect_init_def
      add_delay_def add_effect_def append_to_section_def section_effects_def Let_def
      play_def play_async_def world_of_def repeat_loop_def prepend_def eval_nat_numeral)

text \<open>
  C2. A section named \<open>a\<close> is opened twice at top level, one delay added in each scope.
  The result holds two section objects, at addresses 0 and 1, both linked into the
  top-level list and both holding list 0 with the two delays in order; the name registry
  still holds object 0. \<open>play\<close> therefore runs the two delays twice. The second opening
  constructs a new object, so the membership test before the append never finds it.
\<close>

theorem reopened_section_linked_twice:
  "effects (with_section (with_section SpecialEffect_init (Some ''a'') None (Some 1) (\<lambda>s. add_delay s 1))
              (Some ''a'') None (Some 1) (\<lambda>s. add_delay s 2)) = [Ref 0, Ref 1] \<and>
   next_section (with_section (with_section SpecialEffect_init (Some ''a'') None (Some 1) (\<lambda>s. add_delay s 1))
              (Some ''a'') None (Some 1) (\<lambda>s. add_delay s 2)) = 2 \<and>
   sections (with_section (with_section SpecialEffect_init (Some ''a'') None (Some 1) (\<lambda>s. add_delay s 1))
              (Some ''a'') None (Some 1) (\<lambda>s. add_delay s 2)) 0 =
     \<lparr>so_effects = 0, so_parallel = False, so_repeat = Some 1, so_name = Some ''a''\<rparr> \<and>
   sections (with_section (with_section SpecialEffect_init (Some ''a'') None (Some 1) (\<lambda>s. add_delay s 1))
              (Some ''a'') None (Some 1) (\<lambda>s. add_delay s 2)) 1 =
     \<lparr>so_effects = 0, so_parallel = False, so_repeat = Some 1, so_name = Some ''a''\<rparr> \<and>
   lists (with_section (with_section SpecialEffect_init (Some ''a'') None (Some 1) (\<lambda>s. add_delay s 1))
              (Some ''a'') None (Some 1) (\<lambda>s. add_delay s 2)) 0 =
     [Obj (LightEffect (Delay 1) (Some 1)), Obj (LightEffect (Delay 2) (Some 1))] \<and>
   named_effects (with_section (with_section SpecialEffect_init (Some ''a'') None (Some 1) (\<lambda>s. add_delay s 1))
              (Some ''a'') None (Some 1) (\<lambda>s. add_delay s 2)) ''a'' = Some 0 \<and>
   play 1 calm (with_section (with_section SpecialEffect_init (Some ''a'') None (Some 1) (\<lambda>s. add_delay s 1))
              (Some ''a'') None (Some 1) (\<lambda>s. add_delay s 2)) =
     Some ([Sleep 1, Sleep 2, Sleep 1, Sleep 2], [], Done PyNone, start)"
  by (simp add: with_section_def section_enter_def section_exit_def SpecialEffect_init_def
      add_delay_def add_effect_def append_to_section_def section_effects_def Let_def
      play_def play_async_def world_of_def repeat_loop_def prepend_def)

text \<open>
  C3 as stated fails: a section opened with repeat 0 is constructed, holds repeat 0 and
  plays without doing anything; a light effect with repeat -2 likewise.
\<close>

theorem zero_repeat_counterexample:
  "so_repeat (sections (with_section SpecialEffect_init None None (Some 0) (\<lambda>s. add_delay s 1)) 0) = Some 0 \<and>
   play 1 calm (with_section SpecialEffect_init None None (Some 0) (\<lambda>s. add_delay s 1)) =
     Some ([], [], Done PyNone, start) \<and>
   repeat_of (LightEffect (Delay 1) (Some (- 2))) = Some (- 2) \<and>
   run 1 \<lparr>lights = Map.empty, light_groups = Map.empty, env = calm\<rparr> (LightEffect (Delay 1) (Some (- 2))) start =
     ([], Done PyNone, start)"
  by (simp add: with_section_def section_enter_def section_exit_def SpecialEffect_init_def
      add_delay_def add_effect_def append_to_section_def section_effects_def Let_def
      play_def play_async_def world_of_def repeat_loop_def prepend_def)

text \<open>
  C3, amended. The constructors store the repeat value they are given without checking
  it, also when it is zero or negative, and so does the section builder. An effect or
  section whose repeat is zero or negative completes at once when run and performs no
  action.
\<close>

theorem nonpositive_repeat_runs_nothing:
  assumes "n \<le> 0"
  shows "repeat_of (Section effs par (Some n) nm) = Some n \<and>
         repeat_of (LightEffect a (Some n)) = Some n \<and>
         repeat_of (SoundEffect sound_file p (Some n)) = Some n \<and>
         so_repeat (sections (snd (section_enter self name par' (Some n)))
                      (fst (fst (section_enter self name par' (Some n))))) = Some n \<and>
         run fuel w (Section effs par (Some n) nm) c = ([], Done PyNone, c) \<and>
         run fuel w (LightEffect a (Some n)) c = ([], Done PyNone, c) \<and>
         run fuel w (SoundEffect sound_file p (Some n)) c = ([], Done PyNone, c)"
proof -
  have "so_repeat (sections (snd (section_enter self name par' (Some n)))
                      (fst (fst (section_enter self name par' (Some n))))) = Some n"
    by (simp add: section_enter_def Let_def split: option.splits)
  then show ?thesis using assms by (simp add: iterate_nonpos)
qed

theorem nonpositive_repeat_runs_nothing_witness:
  "(0::int) \<le> 0 \<and>
   run 1 \<lparr>lights = Map.empty, light_groups = Map.empty, env = calm\<rparr>
     (Section [LightEffect (Delay 1) (Some 1)] False (Some 0) None) start = ([], Done PyNone, start)"
  using nonpositive_repeat_runs_nothing [of 0 "[LightEffect (Delay 1) (Some 1)]" False None]
  by simp

text \<open>
  C5 as stated fails: the builder accepts an unknown easing name; the error appears
  only when \<open>play\<close> runs the effect.
\<close>

theorem unknown_easing_counterexample:
  "effects (add_light_color_transition (add_light SpecialEffect_init ''l'' 0) ''l'' (0, 0, 0) (10, 10, 10) 1 ''bogus'') =
     [Obj (LightEffect (ColorTransition ''l'' (0, 0, 0) (10, 10, 10) 1 ''bogus'') (Some 1))] \<and>
   play 1 calm (add_light_color_transition (add_light SpecialEffect_init ''l'' 0) ''l'' (0, 0, 0) (10, 10, 10) 1 ''bogus'') =
     Some ([], [], Raised (KeyError ''bogus''), start)"
  by (simp add: add_light_color_transition_def add_light_def SpecialEffect_init_def add_effect_def
      play_def play_async_def world_of_def repeat_loop_def get_targets_def
      color_transition_def easing_globals_def)

text \<open>
  C5, amended. Let an easing name be bound to nothing in the easing module. Then
  \<open>add_light_color_transition\<close> succeeds at build time: it only appends the effect to
  the list it is building (the open section's, or the top-level list) and does not look
  the name up. Whenever the effect runs and its target name resolves, the run ends with
  \<open>KeyError\<close> for the easing name, raised at the generator's first step: no clock
  reading, no colour, no device call, and no fallback to linear. In particular, when the
  effect was added with no section scope open, its target name resolves and the effects
  queued before it play to completion, \<open>play\<close> ends with that \<open>KeyError\<close> after the trace
  of the earlier effects.
\<close>

theorem unknown_easing_raises_at_run:
  assumes "easing_globals ez = None"
  shows "target_list (add_light_color_transition self name s e d ez) =
           target_list self @ [Obj (LightEffect (ColorTransition name s e d ez) (Some 1))] \<and>
         (get_targets w name = Inr targets \<longrightarrow>
            run fuel w (LightEffect (ColorTransition name s e d ez) (Some 1)) c =
              ([], Raised (KeyError ez), c)) \<and>
         (get_targets self name = Inr targets \<and> current_section self = None \<and>
          play fuel i self = Some (t, tasks, Done r, c) \<longrightarrow>
            play fuel i (add_light_color_transition self name s e d ez) =
              Some (t, [], Raised (KeyError ez), c))"
proof -
  have r: "run fuel w' (LightEffect (ColorTransition name s e d ez) (Some 1)) c =
             ([], Raised (KeyError ez), c)" if "get_targets w' name = Inr targets" for w'
    using that assms by (simp add: run_light_once color_transition_def del: run.simps)
  have p: "play fuel i (add_light_color_transition self name s e d ez) =
              Some (t, [], Raised (KeyError ez), c)"
    if "get_targets self name = Inr targets" "current_section self = None"
       "play fuel i self = Some (t, tasks, Done r, c)"
    using play_add_effect [OF that(2,3), of "LightEffect (ColorTransition name s e d ez) (Some 1)"]
      r [of "world_of self i"] that(1)
    by (simp add: add_light_color_transition_def get_targets_world_of)
  show ?thesis using r [of w] p
    by (simp add: add_light_color_transition_def target_list_add_effect)
qed

theorem unknown_easing_raises_at_run_witness:
  "play 1 calm (add_light_color_transition (add_light SpecialEffect_init ''l'' 0) ''l'' (0, 0, 0) (10, 10, 10) 1 ''ease'') =
     Some ([], [], Raised (KeyError ''ease''), start)"
proof -
  have a: "easing_globals ''ease'' = None" by (simp add: easing_globals_def)
  have b: "get_targets (add_light SpecialEffect_init ''l'' 0) ''l'' = Inr [0]"
    by (simp add: get_targets_def add_light_def)
  have c: "current_section (add_light SpecialEffect_init ''l'' 0) = None"
    by (simp add: add_light_def SpecialEffect_init_def)
  have d: "play 1 calm (add_light SpecialEffect_init ''l'' 0) = Some ([], [], Done PyNone, start)"
    by (simp add: play_def add_light_def SpecialEffect_init_def play_async_def)
  show ?thesis
    using unknown_easing_raises_at_run [OF a, where self = "add_light SpecialEffect_init ''l'' 0"
        and name = "''l''" and targets = "[0]" and fuel = 1 and i = calm and t = "[]"
        and tasks = "[]" and r = PyNone and c = start and s = "(0, 0, 0)" and e = "(10, 10, 10)"
        and d = 1] b c d
    by simp
qed

text \<open>
  C6 as stated fails when a child is an unbounded section: the parent creates a task
  for it in each iteration and goes on to the next child, and completes, while the
  child run on its own has not ended.
\<close>

theorem unbounded_child_counterexample:
  "run 2 \<lparr>lights = Map.empty, light_groups = Map.empty, env = calm\<rparr>
     (Section [Section [LightEffect (Delay 1) (Some 1)] False None None,
               LightEffect (Delay 5) (Some 1)] False (Some 3) None) start =
     ([CreateTask (Section [LightEffect (Delay 1) (Some 1)] False None None), Sleep 0, Sleep 5,
       CreateTask (Section [LightEffect (Delay 1) (Some 1)] False None None), Sleep 0, Sleep 5,
       CreateTask (Section [LightEffect (Delay 1) (Some 1)] False None None), Sleep 0, Sleep 5],
      Done PyNone, start) \<and>
   run 2 \<lparr>lights = Map.empty, light_groups = Map.empty, env = calm\<rparr>
     (Section [LightEffect (Delay 1) (Some 1)] False None None) start = ([Sleep 1, Sleep 1], OutOfFuel, start)"
  by (simp add: repeat_loop_def prepend_def eval_nat_numeral)

text \<open>
  C6, amended. Let a section have repeat 3, sequential mode and two children, neither
  of them an unbounded section. Let the six runs first child, second child, first,
  second, first, second, each starting where the one before ended, all complete. Then
  the section's run completes and is exactly these six runs in this order: its trace is
  their traces one after the other, and it ends where the last one ends. Each child is
  run three times, in list order within each iteration, each run complete before the
  next starts.
\<close>

theorem sequential_section_three_times:
  assumes "\<not> (isinstance_Section c1 \<and> repeat_of c1 = None)"
    and "\<not> (isinstance_Section c2 \<and> repeat_of c2 = None)"
    and "run fuel w c1 s0 = (t1, Done r1, s1)" and "run fuel w c2 s1 = (t2, Done r2, s2)"
    and "run fuel w c1 s2 = (t3, Done r3, s3)" and "run fuel w c2 s3 = (t4, Done r4, s4)"
    and "run fuel w c1 s4 = (t5, Done r5, s5)" and "run fuel w c2 s5 = (t6, Done r6, s6)"
  shows "run fuel w (Section [c1, c2] False (Some 3) name) s0 =
           (t1 @ t2 @ t3 @ t4 @ t5 @ t6, Done PyNone, s6)"
proof -
  let ?body = "sequence (map (\<lambda>e. run_effect fuel w e) [c1, c2])"
  have e1: "run_effect fuel w c1 = run fuel w c1"
    using run_effect_bounded [OF assms(1)] by (intro ext)
  have e2: "run_effect fuel w c2 = run fuel w c2"
    using run_effect_bounded [OF assms(2)] by (intro ext)
  have b1: "?body s0 = (t1 @ t2, Done PyNone, s2)"
    using assms(3,4) by (simp add: e1 e2 prepend_def del: run_effect.simps)
  have b2: "?body s2 = (t3 @ t4, Done PyNone, s4)"
    using assms(5,6) by (simp add: e1 e2 prepend_def del: run_effect.simps)
  have b3: "?body s4 = (t5 @ t6, Done PyNone, s6)"
    using assms(7,8) by (simp add: e1 e2 prepend_def del: run_effect.simps)
  have "iterate (Suc (Suc (Suc 0))) ?body s0 = (t1 @ t2 @ t3 @ t4 @ t5 @ t6, Done PyNone, s6)"
    by (simp only: iterate.simps b1 b2 b3 prod.case status.case prepend_def append_Nil2 append_assoc)
  then show ?thesis by (simp add: repeat_loop_def eval_nat_numeral del: run_effect.simps iterate.simps)
qed

theorem sequential_section_three_times_witness:
  "run 0 \<lparr>lights = Map.empty, light_groups = Map.empty, env = calm\<rparr>
     (Section [LightEffect (Delay 1) (Some 1), SoundEffect ''b'' DefaultPlayer (Some 1)] False (Some 3) None)
     \<lparr>ticks = 0, calls = 0, gathers = 0\<rparr> =
     ([Sleep 1, PlaySound DefaultPlayer ''b'', Sleep 1, PlaySound DefaultPlayer ''b'',
       Sleep 1, PlaySound DefaultPlayer ''b''], Done PyNone, \<lparr>ticks = 0, calls = 3, gathers = 0\<rparr>)"
  using sequential_section_three_times [where
      ?c1.0 = "LightEffect (Delay 1) (Some 1)" and ?c2.0 = "SoundEffect ''b'' DefaultPlayer (Some 1)"
      and fuel = 0 and w = "\<lparr>lights = Map.empty, light_groups = Map.empty, env = calm\<rparr>"
      and name = None
      and ?s0.0 = "\<lparr>ticks = 0, calls = 0, gathers = 0\<rparr>" and ?t1.0 = "[Sleep 1]" and ?r1.0 = PyNone
      and ?s1.0 = "\<lparr>ticks = 0, calls = 0, gathers = 0\<rparr>" and ?t2.0 = "[PlaySound DefaultPlayer ''b'']" and ?r2.0 = PyNone
      and ?s2.0 = "\<lparr>ticks = 0, calls = 1, gathers = 0\<rparr>" and ?t3.0 = "[Sleep 1]" and ?r3.0 = PyNone
      and ?s3.0 = "\<lparr>ticks = 0, calls = 1, gathers = 0\<rparr>" and ?t4.0 = "[PlaySound DefaultPlayer ''b'']" and ?r4.0 = PyNone
      and ?s4.0 = "\<lparr>ticks = 0, calls = 2, gathers = 0\<rparr>" and ?t5.0 = "[Sleep 1]" and ?r5.0 = PyNone
      and ?s5.0 = "\<lparr>ticks = 0, calls = 2, gathers = 0\<rparr>" and ?t6.0 = "[PlaySound DefaultPlayer ''b'']" and ?r6.0 = PyNone
      and ?s6.0 = "\<lparr>ticks = 0, calls = 3, gathers = 0\<rparr>"]
  by (simp add: repeat_loop_def prepend_def external_call_def calm_def)

text \<open>
  C7 as stated fails when the effect is added inside a section that \<open>play\<close> does not
  run inline: in a section with repeat 0 the leaf never runs, and in an unbounded
  section nested in another section the leaf runs in a background task that nobody
  awaits. In both cases \<open>play\<close> ends normally.
\<close>

theorem missing_target_silent_counterexample:
  "play 1 calm
     (with_section SpecialEffect_init None None (Some 0)
        (\<lambda>s. add_light_color s ''missing_name'' (0, 0, 0))) = Some ([], [], Done PyNone, start) \<and>
   play 2 calm
     (with_section SpecialEffect_init None None (Some 1)
        (\<lambda>s. with_section s None None None (\<lambda>s. add_light_color s ''missing_name'' (0, 0, 0)))) =
     Some ([CreateTask (Section [LightEffect (SetColor ''missing_name'' (0, 0, 0)) (Some 1)] False None None),
            Sleep 0], [], Done PyNone, start)"
  by (simp add: with_section_def section_enter_def section_exit_def SpecialEffect_init_def
      add_light_color_def add_effect_def append_to_section_def section_effects_def Let_def
      play_def play_async_def world_of_def repeat_loop_def prepend_def eval_nat_numeral)

text \<open>
  C7, amended. Let a name be in neither registry. Each of the four builders of light
  effects succeeds at build time: it only appends the effect to the list it is building
  (the open section's, or the top-level list) and resolves nothing. Whenever one of
  these effects runs, the run ends at once with the target-not-found \<open>ValueError\<close>,
  whose message contains the name, before any device call or clock reading. In
  particular, when the effect was added with no section scope open and the effects
  queued before it play to completion, \<open>play\<close> ends with that error after the trace of
  the earlier effects.
\<close>

theorem missing_target_raises_at_run:
  assumes "lights self name = None" and "light_groups self name = None"
  shows "target_list (add_light_color self name col) =
           target_list self @ [Obj (LightEffect (SetColor name col) (Some 1))] \<and>
         target_list (add_light_on self name) =
           target_list self @ [Obj (LightEffect (LightCall name TURN_ON) (Some 1))] \<and>
         target_list (add_light_off self name) =
           target_list self @ [Obj (LightEffect (LightCall name TURN_OFF) (Some 1))] \<and>
         target_list (add_light_color_transition self name s e d ez) =
           target_list self @ [Obj (LightEffect (ColorTransition name s e d ez) (Some 1))] \<and>
         run fuel (world_of self i) (LightEffect (SetColor name col) (Some 1)) c =
           ([], Raised (ValueError (not_found_message name)), c) \<and>
         run fuel (world_of self i) (LightEffect (LightCall name TURN_ON) (Some 1)) c =
           ([], Raised (ValueError (not_found_message name)), c) \<and>
         run fuel (world_of self i) (LightEffect (LightCall name TURN_OFF) (Some 1)) c =
           ([], Raised (ValueError (not_found_message name)), c) \<and>
         run fuel (world_of self i) (LightEffect (ColorTransition name s e d ez) (Some 1)) c =
           ([], Raised (ValueError (not_found_message name)), c) \<and>
         (\<exists>p q. not_found_message name = p @ name @ q) \<and>
         (current_section self = None \<and> play fuel i self = Some (t, tasks, Done r, c') \<longrightarrow>
            play fuel i (add_light_color self name col) =
              Some (t, [], Raised (ValueError (not_found_message name)), c') \<and>
            play fuel i (add_light_on self name) =
              Some (t, [], Raised (ValueError (not_found_message name)), c') \<and>
            play fuel i (add_light_off self name) =
              Some (t, [], Raised (ValueError (not_found_message name)), c') \<and>
            play fuel i (add_light_color_transition self name s e d ez) =
              Some (t, [], Raised (ValueError (not_found_message name)), c'))"
proof -
  have g: "get_targets (world_of self i) name = Inl (ValueError (not_found_message name))"
    using assms by (simp add: get_targets_def world_of_registry)
  have r: "run fuel (world_of self i) (LightEffect a (Some 1)) k =
             ([], Raised (ValueError (not_found_message name)), k)"
    if "a = SetColor name col \<or> a = LightCall name act \<or> a = ColorTransition name s e d ez" for a act k
    using run_missing_target [OF g that] .
  have p: "play fuel i (add_effect self (LightEffect a (Some 1))) =
             Some (t, [], Raised (ValueError (not_found_message name)), c')"
    if "a = SetColor name col \<or> a = LightCall name act \<or> a = ColorTransition name s e d ez"
      and "current_section self = None" and "play fuel i self = Some (t, tasks, Done r, c')" for a act
    using play_add_effect [OF that(2,3)] r [OF that(1)] by simp
  show ?thesis
    using r [of "SetColor name col"] r [of "LightCall name TURN_ON" TURN_ON]
      r [of "LightCall name TURN_OFF" TURN_OFF] r [of "ColorTransition name s e d ez"]
      p [of "SetColor name col"] p [of "LightCall name TURN_ON" TURN_ON]
      p [of "LightCall name TURN_OFF" TURN_OFF] p [of "ColorTransition name s e d ez"]
      not_found_message_names [of name]
    by (simp add: add_light_color_def add_light_on_def add_light_off_def create_light_effect_def
        add_light_color_transition_def target_list_add_effect del: run.simps)
qed

theorem missing_target_raises_at_run_witness:
  "effects (add_light_color SpecialEffect_init ''missing_name'' (0, 0, 0)) =
     [Obj (LightEffect (SetColor ''missing_name'' (0, 0, 0)) (Some 1))] \<and>
   play 1 calm (add_light_color SpecialEffect_init ''missing_name'' (0, 0, 0)) =
     Some ([], [], Raised (ValueError (not_found_message ''missing_name'')), start)"
proof -
  have a: "lights SpecialEffect_init ''missing_name'' = None"
    "light_groups SpecialEffect_init ''missing_name'' = None"
    by (simp_all add: SpecialEffect_init_def)
  have b: "current_section SpecialEffect_init = None" "target_list SpecialEffect_init = []"
    "effects SpecialEffect_init = []"
    by (simp_all add: SpecialEffect_init_def target_list_def)
  have c: "effects (add_light_color SpecialEffect_init ''missing_name'' (0, 0, 0)) =
             target_list (add_light_color SpecialEffect_init ''missing_name'' (0, 0, 0))"
    by (simp add: add_light_color_def add_effect_def target_list_def SpecialEffect_init_def)
  show ?thesis
    using missing_target_raises_at_run [OF a, where fuel = 1 and i = calm and t = "[]"
        and tasks = "[]" and r = PyNone and c' = start and col = "(0, 0, 0)"] b c play_init [of 1 calm]
    by simp
qed

text \<open>
  C8. Every easing function of the required set maps 0 to 0 and 1 to 1. Over the reals
  all twenty equations are exact, so they hold within any tolerance.
\<close>

theorem easing_endpoints:
  "linear_ease 0 = 0 \<and> linear_ease 1 = 1 \<and>
   quadratic_in 0 = 0 \<and> quadratic_in 1 = 1 \<and>
   quadratic_out 0 = 0 \<and> quadratic_out 1 = 1 \<and>
   quadratic_in_out 0 = 0 \<and> quadratic_in_out 1 = 1 \<and>
   cubic_in 0 = 0 \<and> cubic_in 1 = 1 \<and>
   cubic_out 0 = 0 \<and> cubic_out 1 = 1 \<and>
   cubic_in_out 0 = 0 \<and> cubic_in_out 1 = 1 \<and>
   sine_in 0 = 0 \<and> sine_in 1 = 1 \<and>
   sine_out 0 = 0 \<and> sine_out 1 = 1 \<and>
   sine_in_out 0 = 0 \<and> sine_in_out 1 = 1"
  by (simp add: linear_ease_def quadratic_in_def quadratic_out_def quadratic_in_out_def
      cubic_in_def cubic_out_def cubic_in_out_def sine_in_def sine_out_def sine_in_out_def)

text \<open>
  C9. \<open>add_custom\<close> appends to the list it is building (the open section's, or the
  top-level list) a \<open>CustomEffect\<close> holding exactly the given callable, positional and
  keyword arguments. A run of that effect hands the callable to the worker thread once,
  with exactly those arguments, and ends as that one call ends: it returns, or raises
  what the callable raises. A keyword argument named \<open>repeat\<close> stays among the keyword
  arguments: the effect's repeat count is 1 and the single call receives the keyword.
  In particular, when the effect was added with no section scope open and the effects
  queued before it play to completion, \<open>play\<close> makes that one call after the trace of
  the earlier effects and ends as the call ends.
\<close>

theorem custom_effect_runs_once:
  "target_list (add_custom self func args kwargs) =
     target_list self @ [Obj (CustomEffect func args kwargs)] \<and>
   run fuel w (CustomEffect func args kwargs) c =
     ([ToThread func args kwargs],
      (case outcomes (env w) (calls c) of None \<Rightarrow> Done PyNone | Some err \<Rightarrow> Raised err),
      c\<lparr>calls := calls c + 1\<rparr>) \<and>
   repeat_of (CustomEffect func args ((''repeat'', v) # kwargs)) = Some 1 \<and>
   fst (run fuel w (CustomEffect func args ((''repeat'', v) # kwargs)) c) =
     [ToThread func args ((''repeat'', v) # kwargs)] \<and>
   (current_section self = None \<and> play fuel i self = Some (t, tasks, Done r, c) \<longrightarrow>
      play fuel i (add_custom self func args kwargs) =
        Some (t @ [ToThread func args kwargs], [],
              (case outcomes i (calls c) of None \<Rightarrow> Done PyNone | Some err \<Rightarrow> Raised err),
              c\<lparr>calls := calls c + 1\<rparr>))"
proof -
  have r: "run fuel w' (CustomEffect func args kw) c =
     ([ToThread func args kw],
      (case outcomes (env w') (calls c) of None \<Rightarrow> Done PyNone | Some err \<Rightarrow> Raised err),
      c\<lparr>calls := calls c + 1\<rparr>)" for w' kw
    by (simp add: external_call_def)
  have p: "play fuel i (add_custom self func args kwargs) =
        Some (t @ [ToThread func args kwargs], [],
              (case outcomes i (calls c) of None \<Rightarrow> Done PyNone | Some err \<Rightarrow> Raised err),
              c\<lparr>calls := calls c + 1\<rparr>)"
    if "current_section self = None" "play fuel i self = Some (t, tasks, Done r, c)"
    using play_add_effect [OF that, of "CustomEffect func args kwargs"]
    by (simp add: add_custom_def r world_of_registry del: run.simps)
  have tl: "target_list (add_custom self func args kwargs) =
     target_list self @ [Obj (CustomEffect func args kwargs)]"
    by (simp add: add_custom_def target_list_add_effect)
  show ?thesis using r [of w kwargs] r [of w "(''repeat'', v) # kwargs"] p tl
    by (simp del: run.simps)
qed

theorem custom_effect_runs_once_witness:
  "play 1 calm (add_custom SpecialEffect_init ''f'' [IntV 2] [(''repeat'', IntV 5)]) =
     Some ([ToThread ''f'' [IntV 2] [(''repeat'', IntV 5)]], [], Done PyNone,
           \<lparr>ticks = 0, calls = 1, gathers = 0\<rparr>)"
proof -
  have a: "current_section SpecialEffect_init = None" by (simp add: SpecialEffect_init_def)
  show ?thesis
    using custom_effect_runs_once [where self = SpecialEffect_init and fuel = 1 and i = calm
        and t = "[]" and tasks = "[]" and r = PyNone and c = start and func = "''f''"
        and args = "[IntV 2]" and kwargs = "[(''repeat'', IntV 5)]"] a play_init [of 1 calm]
    by (simp add: calm_def start_def)
qed

text \<open>
  C10 as stated fails when a light is registered under the group's own name: the light
  is found first, so an effect addressed to that name reaches the device.
\<close>

theorem shadowed_group_counterexample:
  "light_groups (add_light_group (add_light SpecialEffect_init ''g'' 7) ''g'' [''x'']) ''g'' = Some [] \<and>
   play 1 calm (add_light_on (add_light_group (add_light SpecialEffect_init ''g'' 7) ''g'' [''x'']) ''g'') =
     Some ([TurnOn 7], [], Done PyNone, \<lparr>ticks = 0, calls = 1, gathers = 0\<rparr>)"
  by (simp add: add_light_group_def add_light_def SpecialEffect_init_def add_light_on_def
      create_light_effect_def add_effect_def play_def play_async_def world_of_def repeat_loop_def
      get_targets_def prepend_def List.map_filter_simps external_call_def calm_def start_def)

text \<open>
  C10, amended. Let every member name be unregistered when the group is created, and
  let no light be registered under the group's own name. Then the group is the empty
  list and the name resolves to no target. Each of the four builders appends its effect
  for the group to the list it is building. Whenever an on, off or colour effect
  addressed to the group runs, it completes without any event and without any external
  call. Whenever a colour transition addressed to the group runs, its trace holds only
  empty gathers and sleeps of 0.1, and it does not end with the target-not-found error.
\<close>

theorem empty_group_no_action:
  assumes "\<forall>ln \<in> set light_names. lights self ln = None" and "lights self name = None"
  shows "light_groups (add_light_group self name light_names) name = Some [] \<and>
         get_targets (add_light_group self name light_names) name = Inr [] \<and>
         target_list (add_light_on (add_light_group self name light_names) name) =
           target_list (add_light_group self name light_names) @
             [Obj (LightEffect (LightCall name TURN_ON) (Some 1))] \<and>
         target_list (add_light_off (add_light_group self name light_names) name) =
           target_list (add_light_group self name light_names) @
             [Obj (LightEffect (LightCall name TURN_OFF) (Some 1))] \<and>
         target_list (add_light_color (add_light_group self name light_names) name col) =
           target_list (add_light_group self name light_names) @
             [Obj (LightEffect (SetColor name col) (Some 1))] \<and>
         target_list (add_light_color_transition (add_light_group self name light_names) name s e d ez) =
           target_list (add_light_group self name light_names) @
             [Obj (LightEffect (ColorTransition name s e d ez) (Some 1))] \<and>
         run fuel (world_of (add_light_group self name light_names) i)
           (LightEffect (LightCall name TURN_ON) (Some 1)) c = ([], Done PyNone, c) \<and>
         run fuel (world_of (add_light_group self name light_names) i)
           (LightEffect (LightCall name TURN_OFF) (Some 1)) c = ([], Done PyNone, c) \<and>
         run fuel (world_of (add_light_group self name light_names) i)
           (LightEffect (SetColor name col) (Some 1)) c = ([], Done PyNone, c) \<and>
         list_all (\<lambda>ev. ev = Gather [] \<or> ev = Sleep (1 / 10))
           (fst (run fuel (world_of (add_light_group self name light_names) i)
                   (LightEffect (ColorTransition name s e d ez) (Some 1)) c)) \<and>
         (\<forall>m. fst (snd (run fuel (world_of (add_light_group self name light_names) i)
                          (LightEffect (ColorTransition name s e d ez) (Some 1)) c)) \<noteq>
               Raised (ValueError (not_found_message m)))"
proof -
  let ?g = "add_light_group self name light_names"
  let ?w = "world_of ?g i"
  have grp: "light_groups ?g name = Some []"
    using assms(1) by (simp add: add_light_group_def map_filter_all_None)
  have tg: "get_targets ?g name = Inr []"
    using grp assms(2) by (simp add: get_targets_def add_light_group_fields)
  have tw: "get_targets ?w name = Inr []" using tg by (simp add: get_targets_world_of)
  have 1: "run fuel ?w (LightEffect (LightCall name act) (Some 1)) c = ([], Done PyNone, c)" for act
    using tw by (simp add: run_light_once del: run.simps)
  have 3: "run fuel ?w (LightEffect (SetColor name col) (Some 1)) c = ([], Done PyNone, c)"
    using tw by (simp add: run_light_once del: run.simps)
  have 4: "run fuel ?w (LightEffect (ColorTransition name s e d ez) (Some 1)) c =
             color_transition fuel ?w [] d ez c"
    using tw by (simp add: run_light_once del: run.simps)
  show ?thesis
    using grp tg 1 3 color_transition_no_targets [of fuel ?w d ez c]
    by (simp add: 4 add_light_color_def add_light_on_def add_light_off_def create_light_effect_def
        add_light_color_transition_def target_list_add_effect del: run.simps)
qed

theorem empty_group_no_action_witness:
  "light_groups (add_light_group SpecialEffect_init ''g'' [''x'', ''y'']) ''g'' = Some [] \<and>
   run 1 (world_of (add_light_group SpecialEffect_init ''g'' [''x'', ''y'']) calm)
     (LightEffect (LightCall ''g'' TURN_ON) (Some 1)) start = ([], Done PyNone, start)"
proof -
  have a: "\<forall>ln \<in> set [''x'', ''y'']. lights SpecialEffect_init ln = None"
    by (simp add: SpecialEffect_init_def)
  have b: "lights SpecialEffect_init ''g'' = None"
    by (simp add: SpecialEffect_init_def)
  show ?thesis using empty_group_no_action [OF a b, where fuel = 1 and i = calm and c = start] by simp
qed

end
